theory Spec2Isabelle
  imports Main
begin

section \<open>Python values, mappings and the object store\<close>

text \<open>
  The workflow assemblers of \<^verbatim>\<open>atomate/vasp/workflows/base\<close> and the input set of
  \<^verbatim>\<open>atomate/vasp/fireworks/user.py\<close> work on Python dictionaries that are shared by
  reference and updated in place. A setting value is a literal; a float literal is kept
  as written, by its decimal mantissa and exponent (\<open>1E-08\<close> is \<open>FloatV 1 (-8)\<close>,
  \<open>0.015\<close> is \<open>FloatV 15 (-3)\<close>), so no floating-point arithmetic is modelled.
\<close>

datatype pyval =
    NoneV
  | BoolV bool
  | IntV int
  | FloatV int int
  | StrV string
  | ListV "pyval list"

type_synonym pydict = "string \<rightharpoonup> pyval"

text \<open>
  A dictionary that is only read: its items in order. It is false as a condition when
  it has no item, and a key is looked up with \<open>map_of\<close>.
\<close>

type_synonym pyitems = "(string \<times> pyval) list"

type_synonym addr = nat

record Structure =
  reduced_formula :: string

text \<open>
  An entry of a serialised input set: a plain value, the structure, a mapping handed in
  by the caller and only stored (\<open>user_kpoints_settings\<close>, kept as its items), or a reference to a
  mapping that lives in the store and may be updated in place.
\<close>

datatype entry =
    Val pyval
  | Struct Structure
  | Dict pyitems
  | Ref addr

type_synonym topdict = "string \<rightharpoonup> entry"

text \<open>
  The store: the mutable mappings by address, the next free address, and the counter
  that numbers the task units in the order of their construction.
\<close>

record pystate =
  heap :: "addr \<rightharpoonup> pydict"
  next_addr :: addr
  next_fw_id :: nat

definition deref :: "pystate \<Rightarrow> addr \<Rightarrow> pydict" where
  "deref s a = (case heap s a of Some d \<Rightarrow> d | None \<Rightarrow> Map.empty)"

text \<open>A dictionary display \<^verbatim>\<open>{...}\<close> or a copy: a new mapping at a new address.\<close>

definition new_dict :: "pydict \<Rightarrow> pystate \<Rightarrow> addr \<times> pystate" where
  "new_dict d s =
     (next_addr s, s\<lparr>heap := (heap s)(next_addr s \<mapsto> d), next_addr := Suc (next_addr s)\<rparr>)"

text \<open>\<^verbatim>\<open>a.update(d)\<close>: in place, on the mapping at address \<open>a\<close>.\<close>

definition dict_update :: "addr \<Rightarrow> pydict \<Rightarrow> pystate \<Rightarrow> pystate" where
  "dict_update a d s = s\<lparr>heap := (heap s)(a \<mapsto> deref s a ++ d)\<rparr>"

section \<open>Input sets\<close>

text \<open>
  An input set object as the assemblers see it: its class, the \<open>user_incar_settings\<close>
  mapping it holds (a reference into the store; \<open>None\<close> when it was built without one,
  as the default \<^verbatim>\<open>MPRelaxSet(structure, force_gamma=True)\<close> is), and its other
  constructor arguments.
\<close>

record input_set =
  vis_class :: string
  uis_ref :: "addr option"
  vis_other :: topdict

definition MPRelaxSet :: "Structure \<Rightarrow> bool \<Rightarrow> input_set" where
  "MPRelaxSet structure force_gamma =
     \<lparr>vis_class = ''MPRelaxSet'', uis_ref = None,
      vis_other = [''structure'' \<mapsto> Struct structure, ''force_gamma'' \<mapsto> Val (BoolV force_gamma)]\<rparr>"

text \<open>
  Modelled from the spec: \<^verbatim>\<open>as_dict\<close> of the settings library (pymatgen), which is not
  part of this repository. The spec describes it as the serialisation half of a
  serialise/deserialise round trip that produces copies: the result is a new top-level
  mapping, and the \<open>user_incar_settings\<close> mapping of the object is serialised into a new
  mapping at a fresh address. The top-level mapping is referenced by one local variable
  of the assembler only, so it is passed by value.
\<close>

definition as_dict :: "input_set \<Rightarrow> pystate \<Rightarrow> topdict \<times> pystate" where
  "as_dict vis s =
     (case uis_ref vis of
        None \<Rightarrow> ((vis_other vis)(''user_incar_settings'' := None), s)
      | Some a \<Rightarrow>
          (let (b, s') = new_dict (deref s a) s
           in ((vis_other vis)(''user_incar_settings'' \<mapsto> Ref b), s')))"

text \<open>
  Modelled from the spec: \<^verbatim>\<open>from_dict\<close> of the settings library, the deserialisation
  half: a new object of the given class that holds its own copy of the
  \<open>user_incar_settings\<close> mapping of the serialised form.
\<close>

definition from_dict :: "string \<Rightarrow> topdict \<Rightarrow> pystate \<Rightarrow> input_set \<times> pystate" where
  "from_dict cls d s =
     (case d ''user_incar_settings'' of
        Some (Ref a) \<Rightarrow>
          (let (b, s') = new_dict (deref s a) s
           in (\<lparr>vis_class = cls, uis_ref = Some b,
                vis_other = d(''user_incar_settings'' := None)\<rparr>, s'))
      | Some (Dict m) \<Rightarrow>
          (let (b, s') = new_dict (map_of m) s
           in (\<lparr>vis_class = cls, uis_ref = Some b,
                vis_other = d(''user_incar_settings'' := None)\<rparr>, s'))
      | _ \<Rightarrow>
          (\<lparr>vis_class = cls, uis_ref = None,
            vis_other = d(''user_incar_settings'' := None)\<rparr>, s))"

text \<open>
  \<^verbatim>\<open>d.get("user_incar_settings", {})\<close> on a serialised form: the nested mapping itself
  (the same object, not a copy) when the key is there, a new empty mapping otherwise.
  A serialised form made by \<open>as_dict\<close> has a reference or nothing under this key.
\<close>

definition get_user_incar_settings :: "topdict \<Rightarrow> pystate \<Rightarrow> addr \<times> pystate" where
  "get_user_incar_settings d s =
     (case d ''user_incar_settings'' of
        Some (Ref a) \<Rightarrow> (a, s)
      | _ \<Rightarrow> new_dict Map.empty s)"

text \<open>The user INCAR settings an input set holds, read in a given store.\<close>

definition user_incar_settings :: "pystate \<Rightarrow> input_set \<Rightarrow> pydict" where
  "user_incar_settings s vis =
     (case uis_ref vis of None \<Rightarrow> Map.empty | Some a \<Rightarrow> deref s a)"

text \<open>
  The serialised form as a value, nested mapping included: what a caller compares
  before and after an assembly.
\<close>

definition serialized :: "pystate \<Rightarrow> input_set \<Rightarrow> string \<times> pydict option \<times> topdict" where
  "serialized s vis =
     (vis_class vis, map_option (deref s) (uis_ref vis),
      (vis_other vis)(''user_incar_settings'' := None))"

section \<open>Task units and workflows\<close>

text \<open>
  The input set a \<^verbatim>\<open>WriteVaspFromIOSet\<close> task is given: the caller's, or the call
  \<^verbatim>\<open>MPRelaxSetEx(structure, **kwargs)\<close> with its keyword arguments.
\<close>

datatype io_set =
    Given input_set
  | MPRelaxSetEx_call Structure topdict

text \<open>The tasks, each with the keyword arguments of its constructor call.\<close>

datatype task =
    DispersionAnalysisTask string "string option" string "int list list"
  | PassCalcLocs string
  | ThermalConductivityTask string "string option" string "int list list" pyval
  | CopyVaspOutputs bool bool
  | WriteVaspRelaxFromStructure topdict
  | WriteVaspFromIOSet Structure io_set
  | RunVaspCustodian string string pyval "pyval option" string
  | VaspToDbTask "string option" pydict

text \<open>
  The constructor calls of the task-unit classes, with the keyword arguments the
  assemblers give them; a name of \<open>None\<close> is the constructor's own default.
\<close>

datatype fw_call =
    OptimizeFW Structure input_set string "string option" "string option"
  | DispersionFW Structure input_set string "string option" string "int list list"
      "string option"
  | ThirdOrderFW Structure input_set string string "string option" "int list list" pyval
      string
  | Firework "task list" string

text \<open>
  A task unit: its number in construction order, the numbers of its parents, and the
  call that made it.
\<close>

record firework =
  fw_id :: nat
  fw_parents :: "nat list"
  fw_call :: fw_call

definition new_fw :: "fw_call \<Rightarrow> nat list \<Rightarrow> pystate \<Rightarrow> firework \<times> pystate" where
  "new_fw c ps s =
     (\<lparr>fw_id = next_fw_id s, fw_parents = ps, fw_call = c\<rparr>,
      s\<lparr>next_fw_id := Suc (next_fw_id s)\<rparr>)"

record workflow =
  wf_fws :: "firework list"
  wf_name :: string

definition Workflow :: "firework list \<Rightarrow> workflow" where
  "Workflow fws = \<lparr>wf_fws = fws, wf_name = ''unnamed WF''\<rparr>"

datatype error = ValueError string | TypeError

definition mode_message :: string where
  "mode_message =
     ''Dispersion workflow mode should be '' @ [CHR 0x22] @ ''force'' @ [CHR 0x22]
       @ '' or '' @ [CHR 0x22] @ ''hessian'' @ [CHR 0x22] @ ''.''"

definition uis_common :: pydict where
  "uis_common = [''EDIFF'' \<mapsto> FloatV 1 (-8)]"

definition uis_force :: pydict where
  "uis_force = [''IBRION'' \<mapsto> IntV 2, ''ISMEAR'' \<mapsto> IntV 0, ''ISPIN'' \<mapsto> IntV 1,
                ''NSW'' \<mapsto> IntV 0]"

definition uis_hessian :: pydict where
  "uis_hessian = [''IBRION'' \<mapsto> IntV 6, ''ISMEAR'' \<mapsto> IntV 0, ''ISPIN'' \<mapsto> IntV 1,
                  ''NSW'' \<mapsto> IntV 1, ''POTIM'' \<mapsto> FloatV 15 (-3)]"

text \<open>
  \<^verbatim>\<open>if user_kpoints_settings: d.update({"user_kpoints_settings": user_kpoints_settings})\<close>
\<close>

definition update_kpoints :: "pyitems option \<Rightarrow> topdict \<Rightarrow> topdict" where
  "update_kpoints user_kpoints_settings d =
     (case user_kpoints_settings of
        None \<Rightarrow> d
      | Some k \<Rightarrow> if k \<noteq> [] then d(''user_kpoints_settings'' \<mapsto> Dict k) else d)"

section \<open>The dispersion workflow\<close>

text \<open>
  \<^verbatim>\<open>get_wf_dispersion\<close> of \<^verbatim>\<open>workflows/base/dispersion.py\<close>. The time stamp \<open>tag\<close> is
  read from the clock in the source and is a parameter here. The probe that imports
  phonopy only logs a warning and is left out. The result is the workflow or the
  exception raised, together with the store as the call leaves it.
\<close>

definition get_wf_dispersion ::
  "Structure \<Rightarrow> input_set option \<Rightarrow> string \<Rightarrow> string option \<Rightarrow> string \<Rightarrow> int list list \<Rightarrow>
   pyitems option \<Rightarrow> bool \<Rightarrow> string \<Rightarrow> pystate \<Rightarrow> (error + workflow) \<times> pystate" where
  "get_wf_dispersion structure vasp_input_set vasp_cmd db_file mode supercell
     user_kpoints_settings optimize_structure tag s0 =
   (let vis_orig = (case vasp_input_set of Some v \<Rightarrow> v | None \<Rightarrow> MPRelaxSet structure True);
        (fws, parent2, s1) =
          (if optimize_structure then
             (let (vis_relax_dict, sa) = as_dict vis_orig s0;
                  (uis_relax, sb) = get_user_incar_settings vis_relax_dict sa;
                  sc = dict_update uis_relax uis_common sb;
                  vis_relax_dict = vis_relax_dict(''user_incar_settings'' \<mapsto> Ref uis_relax);
                  vis_relax_dict = update_kpoints user_kpoints_settings vis_relax_dict;
                  (vis_relax, sd) = from_dict (vis_class vis_orig) vis_relax_dict sc;
                  (fw1, se) =
                    (if mode = ''force'' then
                       new_fw (OptimizeFW structure vis_relax vasp_cmd db_file
                                 (Some (tag @ '' structure optimization''))) [] sd
                     else
                       new_fw (OptimizeFW structure vis_relax vasp_cmd db_file None) [] sd)
              in ([fw1], [fw_id fw1], se))
           else ([], [], s0));
        (vis_disp_dict, s2) = as_dict vis_orig s1;
        vis_disp_dict = update_kpoints user_kpoints_settings vis_disp_dict;
        (uis_disp, s3) = get_user_incar_settings vis_disp_dict s2;
        s4 = dict_update uis_disp uis_common s3;
        r =
          (if mode = ''force'' then
             (let s5 = dict_update uis_disp uis_force s4;
                  vis_disp_dict = vis_disp_dict(''user_incar_settings'' \<mapsto> Ref uis_disp);
                  (vis_disp, s6) = from_dict (vis_class vis_orig) vis_disp_dict s5;
                  (fw2, s7) =
                    new_fw (DispersionFW structure vis_disp vasp_cmd db_file mode supercell
                              (Some (tag @ '' dispersion''))) parent2 s6;
                  fws = fws @ [fw2];
                  (fw3, s8) =
                    new_fw (Firework [DispersionAnalysisTask tag db_file mode supercell]
                              (reduced_formula structure @ ''-dispersion_force: analysis''))
                      [fw_id fw2] s7;
                  fws = fws @ [fw3]
              in (Inr (Workflow fws), s8))
           else if mode = ''hessian'' then
             (let s5 = dict_update uis_disp uis_hessian s4;
                  vis_disp_dict = vis_disp_dict(''user_incar_settings'' \<mapsto> Ref uis_disp);
                  (vis_disp, s6) = from_dict (vis_class vis_orig) vis_disp_dict s5;
                  (fw2, s7) =
                    new_fw (DispersionFW structure vis_disp vasp_cmd db_file mode supercell
                              None) parent2 s6;
                  fws = fws @ [fw2]
              in (Inr (Workflow fws), s7))
           else (Inl (ValueError mode_message), s4))
    in case r of
         (Inl e, s9) \<Rightarrow> (Inl e, s9)
       | (Inr wf_disp, s9) \<Rightarrow>
           (Inr (wf_disp\<lparr>wf_name := reduced_formula structure @ ''-dispersion''\<rparr>), s9))"

section \<open>The thermal conductivity workflow\<close>

text \<open>
  \<^verbatim>\<open>get_wf_thermal_conductivity\<close> of \<^verbatim>\<open>workflows/base/thermal_conductivity.py\<close>.
  \<open>parent1\<close> is the relaxation unit, if any; \<open>parent2\<close> collects the last unit of the
  dispersion branch and then the third-order unit.
\<close>

definition get_wf_thermal_conductivity ::
  "Structure \<Rightarrow> input_set option \<Rightarrow> string \<Rightarrow> string \<Rightarrow> string \<Rightarrow> string option \<Rightarrow>
   int list list \<Rightarrow> pyval \<Rightarrow> pyitems option \<Rightarrow> bool \<Rightarrow> string \<Rightarrow> pystate \<Rightarrow>
   (error + workflow) \<times> pystate" where
  "get_wf_thermal_conductivity structure vasp_input_set mode vasp_cmd third_cmd db_file
     supercell cutoff_3rd user_kpoints_settings optimize_structure tag s0 =
   (let vis_orig = (case vasp_input_set of Some v \<Rightarrow> v | None \<Rightarrow> MPRelaxSet structure True);
        (fws, parent1, s1) =
          (if optimize_structure then
             (let (vis_relax_dict, sa) = as_dict vis_orig s0;
                  (uis_relax, sb) = get_user_incar_settings vis_relax_dict sa;
                  sc = dict_update uis_relax uis_common sb;
                  vis_relax_dict = vis_relax_dict(''user_incar_settings'' \<mapsto> Ref uis_relax);
                  vis_relax_dict = update_kpoints user_kpoints_settings vis_relax_dict;
                  (vis_relax, sd) = from_dict (vis_class vis_orig) vis_relax_dict sc;
                  (fw1, se) =
                    new_fw (OptimizeFW structure vis_relax vasp_cmd db_file
                              (Some (tag @ '' structure optimization''))) [] sd
              in ([fw1], [fw_id fw1], se))
           else ([], [], s0));
        (vis_disp_dict, s2) = as_dict vis_orig s1;
        vis_disp_dict = update_kpoints user_kpoints_settings vis_disp_dict;
        (uis_disp, s3) = get_user_incar_settings vis_disp_dict s2;
        s4 = dict_update uis_disp uis_common s3;
        r =
          (if mode = ''force'' then
             (let s5 = dict_update uis_disp uis_force s4;
                  vis_disp_dict = vis_disp_dict(''user_incar_settings'' \<mapsto> Ref uis_disp);
                  (vis_disp, s6) = from_dict (vis_class vis_orig) vis_disp_dict s5;
                  (fw2, s7) =
                    new_fw (DispersionFW structure vis_disp vasp_cmd db_file mode supercell
                              (Some (tag @ '' dispersion''))) parent1 s6;
                  fws = fws @ [fw2];
                  (fw3, s8) =
                    new_fw (Firework
                              [PassCalcLocs (reduced_formula structure @ ''-'' @ tag
                                 @ '' dispersion''),
                               DispersionAnalysisTask tag db_file mode supercell]
                              (reduced_formula structure @ ''-'' @ tag @ '' dispersion''))
                      [fw_id fw2] s7;
                  fws = fws @ [fw3]
              in (Inr (fws, [fw_id fw3]), s8))
           else if mode = ''hessian'' then
             (let s5 = dict_update uis_disp uis_hessian s4;
                  vis_disp_dict = vis_disp_dict(''user_incar_settings'' \<mapsto> Ref uis_disp);
                  (vis_disp, s6) = from_dict (vis_class vis_orig) vis_disp_dict s5;
                  (fw2, s7) =
                    new_fw (DispersionFW structure vis_disp vasp_cmd db_file mode supercell
                              (Some (tag @ '' dispersion''))) parent1 s6;
                  fws = fws @ [fw2]
              in (Inr (fws, [fw_id fw2]), s7))
           else (Inl (ValueError mode_message), s4))
    in case r of
         (Inl e, s9) \<Rightarrow> (Inl e, s9)
       | (Inr (fws, parent2), s9) \<Rightarrow>
           (let (vis_third_dict, s10) = as_dict vis_orig s9;
                vis_third_dict = update_kpoints user_kpoints_settings vis_third_dict;
                (uis_third, s11) = get_user_incar_settings vis_third_dict s10;
                s12 = dict_update uis_third uis_common s11;
                s13 = dict_update uis_third uis_force s12;
                vis_third_dict = vis_third_dict(''user_incar_settings'' \<mapsto> Ref uis_third);
                (vis_third, s14) = from_dict (vis_class vis_orig) vis_third_dict s13;
                (fw4, s15) =
                  new_fw (ThirdOrderFW structure vis_third third_cmd vasp_cmd db_file
                            supercell cutoff_3rd (tag @ '' thirdorder'')) parent1 s14;
                fws = fws @ [fw4];
                parent2 = parent2 @ [fw_id fw4];
                (fw5, s16) =
                  new_fw (Firework
                            [ThermalConductivityTask tag db_file third_cmd supercell
                               cutoff_3rd]
                            (reduced_formula structure @ ''-thermal conductivity''))
                    parent2 s15;
                fws = fws @ [fw5];
                wf_k = Workflow fws
            in (Inr (wf_k\<lparr>wf_name := reduced_formula structure @ ''-thermal conductivity''\<rparr>),
                s16)))"

section \<open>The input set and the relaxation step of \<^verbatim>\<open>fireworks/user.py\<close>\<close>

text \<open>
  \<^verbatim>\<open>MPRelaxSet.CONFIG\<close> is a table of the settings library; it is a parameter here,
  with the two categories the class reads.
\<close>

record config_dict =
  INCAR :: pydict
  KPOINTS :: pydict

record MPRelaxSetEx =
  ex_structure :: Structure
  ex_config_dict :: config_dict
  ex_rm_incar_settings :: "string list"
  ex_user_kpoints_settings :: "pyitems option"
  ex_rm_config_INCAR :: pydict

text \<open>
  The loop of \<^verbatim>\<open>MPRelaxSetEx.__init__\<close> over \<^verbatim>\<open>rm_incar_settings\<close>, on the pair of
  \<^verbatim>\<open>config_dict["INCAR"]\<close> and \<^verbatim>\<open>rm_config_dict["INCAR"]\<close>: a key of the category
  is popped and recorded with the popped value, any other key is passed over.
\<close>

fun rm_incar :: "string list \<Rightarrow> pydict \<times> pydict \<Rightarrow> pydict \<times> pydict" where
  "rm_incar [] (incar, rm) = (incar, rm)"
| "rm_incar (k # ks) (incar, rm) =
     (case incar k of
        Some v \<Rightarrow> rm_incar ks (incar(k := None), rm(k \<mapsto> v))
      | None \<Rightarrow> rm_incar ks (incar, rm))"

text \<open>
  \<^verbatim>\<open>MPRelaxSetEx.__init__\<close>. The base class initialiser keeps its own copy of the
  configuration. No statement of the constructor raises, so it is a total function.
\<close>

definition MPRelaxSetEx_init ::
  "Structure \<Rightarrow> string list \<Rightarrow> pyitems option \<Rightarrow> config_dict \<Rightarrow> MPRelaxSetEx" where
  "MPRelaxSetEx_init structure rm_incar_settings user_kpoints_settings CONFIG =
     (let (incar, rm) = rm_incar rm_incar_settings (INCAR CONFIG, Map.empty)
      in \<lparr>ex_structure = structure,
          ex_config_dict = CONFIG\<lparr>INCAR := incar\<rparr>,
          ex_rm_incar_settings = rm_incar_settings,
          ex_user_kpoints_settings = user_kpoints_settings,
          ex_rm_config_INCAR = rm\<rparr>)"

text \<open>Truth value of a Python value, as \<^verbatim>\<open>if\<close> and \<^verbatim>\<open>or\<close> take it.\<close>

fun truthy :: "pyval \<Rightarrow> bool" where
  "truthy NoneV = False"
| "truthy (BoolV b) = b"
| "truthy (IntV i) = (i \<noteq> 0)"
| "truthy (FloatV m e) = (m \<noteq> 0)"
| "truthy (StrV s) = (s \<noteq> [])"
| "truthy (ListV xs) = (xs \<noteq> [])"

text \<open>\<^verbatim>\<open>tuple(v)\<close>: the items of a list or a string; any other value is not iterable.\<close>

fun tuple :: "pyval \<Rightarrow> error + pyval list" where
  "tuple (ListV xs) = Inr xs"
| "tuple (StrV s) = Inr (map (\<lambda>c. StrV [c]) s)"
| "tuple v = Inl TypeError"

text \<open>
  The result of the \<^verbatim>\<open>kpoints\<close> property: \<^verbatim>\<open>Kpoints.gamma_automatic(kpts=...)\<close>, or what
  the property of the base class gives (\<^verbatim>\<open>super(MPRelaxSet, self).kpoints\<close>), which is
  computed by the settings library.
\<close>

datatype kpoints_result = Gamma_automatic "pyval list" | Base_class_kpoints

definition kpoints :: "MPRelaxSetEx \<Rightarrow> error + kpoints_result" where
  "kpoints self =
     (let settings =
            (case ex_user_kpoints_settings self of
               None \<Rightarrow> KPOINTS (ex_config_dict self)
             | Some u \<Rightarrow> if u \<noteq> [] then map_of u else KPOINTS (ex_config_dict self))
      in case settings ''kpts'' of
           None \<Rightarrow> Inr Base_class_kpoints
         | Some v \<Rightarrow>
             if truthy v then
               (case tuple v of Inl e \<Rightarrow> Inl e | Inr g \<Rightarrow> Inr (Gamma_automatic g))
             else Inr Base_class_kpoints)"

text \<open>Decimal digits of an integer, for \<^verbatim>\<open>"Step{}".format(1 + step_index)\<close>.\<close>

function str_nat :: "nat \<Rightarrow> string" where
  "str_nat n =
     (if n < 10 then [char_of (48 + n)]
      else str_nat (n div 10) @ [char_of (48 + n mod 10)])"
  by pat_completeness auto
termination
  by (relation "measure id") auto

definition str_int :: "int \<Rightarrow> string" where
  "str_int i = (if i < 0 then ''-'' @ str_nat (nat (- i)) else str_nat (nat i))"

text \<open>
  A call \<^verbatim>\<open>f(k1=v1, ..., **d)\<close>: unpacking \<^verbatim>\<open>None\<close> raises \<^verbatim>\<open>TypeError\<close>, and so does a
  key of \<open>d\<close> that repeats an argument given explicitly.
\<close>

definition unpack_kwargs :: "(string \<times> entry) list \<Rightarrow> topdict option \<Rightarrow> error + topdict" where
  "unpack_kwargs given d =
     (case d of
        None \<Rightarrow> Inl TypeError
      | Some m \<Rightarrow>
          if list_ex (\<lambda>(k, v). m k \<noteq> None) given then Inl TypeError
          else Inr (m ++ map_of given))"

text \<open>
  \<^verbatim>\<open>OptimizeStepFW.__init__\<close>. \<^verbatim>\<open>vasp_input_set or MPRelaxSetEx(...)\<close> evaluates its
  right operand only when no input set was given. The extra keyword arguments handed
  on to \<^verbatim>\<open>Firework.__init__\<close> are left out.
\<close>

definition OptimizeStepFW_init ::
  "Structure \<Rightarrow> int \<Rightarrow> string \<Rightarrow> input_set option \<Rightarrow> string \<Rightarrow> topdict option \<Rightarrow>
   pyval option \<Rightarrow> string \<Rightarrow> string option \<Rightarrow> nat list \<Rightarrow> pystate \<Rightarrow>
   (error + firework) \<times> pystate" where
  "OptimizeStepFW_init structure step_index name vasp_input_set vasp_cmd
     override_default_vasp_params ediffg job_type db_file parents s =
   (let t = [];
        r =
          (if step_index \<noteq> 0 then
             (case unpack_kwargs
                     [(''struct_dir'', Val (StrV ''.'')), (''force_gamma'', Val (BoolV True))]
                     override_default_vasp_params of
                Inl e \<Rightarrow> Inl e
              | Inr kw \<Rightarrow>
                  Inr (t @ [CopyVaspOutputs True True] @ [WriteVaspRelaxFromStructure kw]))
           else
             (case (case vasp_input_set of
                      Some v \<Rightarrow> Inr (Given v)
                    | None \<Rightarrow>
                        (case unpack_kwargs
                                [(''structure'', Struct structure),
                                 (''force_gamma'', Val (BoolV True))]
                                override_default_vasp_params of
                           Inl e \<Rightarrow> Inl e
                         | Inr kw \<Rightarrow> Inr (MPRelaxSetEx_call structure kw))) of
                Inl e \<Rightarrow> Inl e
              | Inr vis \<Rightarrow> Inr (t @ [WriteVaspFromIOSet structure vis])))
    in case r of
         Inl e \<Rightarrow> (Inl e, s)
       | Inr t \<Rightarrow>
           (let t = t @ [RunVaspCustodian vasp_cmd job_type (FloatV 25 (-2)) ediffg
                           ''>>auto_npar<<''];
                t = t @ [PassCalcLocs name];
                t = t @ [VaspToDbTask db_file [''task_label'' \<mapsto> StrV name]];
                (fw, s') =
                  new_fw (Firework t
                            (reduced_formula structure @ ''-'' @ name @ ''-Step''
                               @ str_int (1 + step_index)))
                    parents s
            in (Inr fw, s')))"

section \<open>Reading a workflow\<close>

text \<open>
  What the statements below read off a returned workflow: the kind of a task unit, the
  input set its constructor was given, and the dependency edges, each from a parent to
  the unit that lists it.
\<close>

datatype unit_kind =
    OptimizeUnit
  | DispersionUnit
  | ThirdOrderUnit
  | AnalysisUnit
  | ThermalConductivityUnit
  | OtherUnit

fun is_analysis_task :: "task \<Rightarrow> bool" where
  "is_analysis_task (DispersionAnalysisTask tag db_file mode supercell) = True"
| "is_analysis_task t = False"

fun is_thermal_task :: "task \<Rightarrow> bool" where
  "is_thermal_task (ThermalConductivityTask tag db_file third_cmd supercell cutoff) = True"
| "is_thermal_task t = False"

fun call_kind :: "fw_call \<Rightarrow> unit_kind" where
  "call_kind (OptimizeFW st vis cmd db name) = OptimizeUnit"
| "call_kind (DispersionFW st vis cmd db mode supercell name) = DispersionUnit"
| "call_kind (ThirdOrderFW st vis tcmd cmd db supercell cutoff name) = ThirdOrderUnit"
| "call_kind (Firework ts name) =
     (if list_ex is_thermal_task ts then ThermalConductivityUnit
      else if list_ex is_analysis_task ts then AnalysisUnit
      else OtherUnit)"

definition unit_kind :: "firework \<Rightarrow> unit_kind" where
  "unit_kind fw = call_kind (fw_call fw)"

fun call_vis :: "fw_call \<Rightarrow> input_set list" where
  "call_vis (OptimizeFW st vis cmd db name) = [vis]"
| "call_vis (DispersionFW st vis cmd db mode supercell name) = [vis]"
| "call_vis (ThirdOrderFW st vis tcmd cmd db supercell cutoff name) = [vis]"
| "call_vis (Firework ts name) = []"

text \<open>The user INCAR settings of the dispersion units of a workflow, read in a store.\<close>

definition dispersion_settings :: "pystate \<Rightarrow> workflow \<Rightarrow> pydict list" where
  "dispersion_settings s w =
     concat (map (\<lambda>fw. map (user_incar_settings s) (call_vis (fw_call fw)))
               (filter (\<lambda>fw. unit_kind fw = DispersionUnit) (wf_fws w)))"

definition dispersion_input_sets :: "workflow \<Rightarrow> input_set list" where
  "dispersion_input_sets w =
     concat (map (\<lambda>fw. call_vis (fw_call fw))
               (filter (\<lambda>fw. unit_kind fw = DispersionUnit) (wf_fws w)))"

definition wf_edges :: "workflow \<Rightarrow> (nat \<times> nat) set" where
  "wf_edges w =
     set (concat (map (\<lambda>fw. map (\<lambda>p. (p, fw_id fw)) (fw_parents fw)) (wf_fws w)))"

text \<open>The units of one kind in a workflow, in the order of the workflow, and their numbers.\<close>

definition units_of :: "unit_kind \<Rightarrow> workflow \<Rightarrow> firework list" where
  "units_of k w = filter (\<lambda>fw. unit_kind fw = k) (wf_fws w)"

definition ids_of :: "unit_kind \<Rightarrow> workflow \<Rightarrow> nat list" where
  "ids_of k w = map fw_id (units_of k w)"

text \<open>
  Every parent of every unit of the list is among \<open>seen\<close> or is a unit that stands
  earlier in the list.
\<close>

fun parents_earlier :: "nat list \<Rightarrow> firework list \<Rightarrow> bool" where
  "parents_earlier seen [] = True"
| "parents_earlier seen (fw # fws) =
     (list_all (\<lambda>p. p \<in> set seen) (fw_parents fw) \<and> parents_earlier (seen @ [fw_id fw]) fws)"

text \<open>
  The mapping an input set refers to exists in the store: its address was handed out
  before. Every reference of a running program is of this kind.
\<close>

definition in_store :: "pystate \<Rightarrow> input_set \<Rightarrow> bool" where
  "in_store s vis = (case uis_ref vis of None \<Rightarrow> True | Some a \<Rightarrow> a < next_addr s)"

text \<open>
  Two abbreviations for the proofs: the input set that a serialise, merge, deserialise
  sequence builds, and the store after it, which holds the merged mapping twice (the
  serialised one and the copy of the new object).
\<close>

definition derived :: "input_set \<Rightarrow> pyitems option \<Rightarrow> addr \<Rightarrow> input_set" where
  "derived vis ukp b =
     \<lparr>vis_class = vis_class vis, uis_ref = Some b,
      vis_other = (update_kpoints ukp (vis_other vis))(''user_incar_settings'' := None)\<rparr>"

definition alloc2 :: "pydict \<Rightarrow> pystate \<Rightarrow> pystate" where
  "alloc2 d s =
     s\<lparr>heap := (heap s)(next_addr s \<mapsto> d, Suc (next_addr s) \<mapsto> d),
       next_addr := Suc (Suc (next_addr s))\<rparr>"

text \<open>The store after the construction of one task unit.\<close>

definition bump_fw :: "pystate \<Rightarrow> pystate" where
  "bump_fw s = s\<lparr>next_fw_id := Suc (next_fw_id s)\<rparr>"

section \<open>A sample call\<close>

text \<open>
  Concrete inputs on which the theorems are run: silicon, a store that holds one
  mapping, an \<^verbatim>\<open>MPRelaxSet\<close> object whose user INCAR settings are that mapping, and the
  default supercell of the dispersion workflow.
\<close>

definition Si :: Structure where
  "Si = \<lparr>reduced_formula = ''Si''\<rparr>"

definition store0 :: pystate where
  "store0 =
     \<lparr>heap = [0 \<mapsto> [''ENCUT'' \<mapsto> IntV 520, ''EDIFF'' \<mapsto> FloatV 1 (-5)]],
      next_addr = 1, next_fw_id = 0\<rparr>"

definition vis0 :: input_set where
  "vis0 =
     \<lparr>vis_class = ''MPRelaxSet'', uis_ref = Some 0,
      vis_other = [''structure'' \<mapsto> Struct Si, ''force_gamma'' \<mapsto> Val (BoolV True)]\<rparr>"

definition supercell3 :: "int list list" where
  "supercell3 = [[3, 0, 0], [0, 3, 0], [0, 0, 3]]"

section \<open>Removed INCAR settings of \<^verbatim>\<open>MPRelaxSetEx\<close>\<close>

lemma rm_incar_eq:
  "rm_incar ks (incar, rm) = (incar |` (- set ks), rm ++ (incar |` set ks))"
proof (induction ks arbitrary: incar rm)
  case Nil
  show ?case by simp
next
  case (Cons k ks)
  show ?case
  proof (cases "incar k")
    case None
    have e1: "incar |` (- set ks) = incar |` (- set (k # ks))"
      using None by (auto simp: restrict_map_def fun_eq_iff)
    have e2: "incar |` set ks = incar |` set (k # ks)"
      using None by (auto simp: restrict_map_def fun_eq_iff)
    have "rm_incar (k # ks) (incar, rm) = rm_incar ks (incar, rm)"
      using None by simp
    also have "\<dots> = (incar |` (- set ks), rm ++ (incar |` set ks))"
      by (rule Cons.IH)
    also have "\<dots> = (incar |` (- set (k # ks)), rm ++ (incar |` set (k # ks)))"
      by (simp only: e1 e2)
    finally show ?thesis .
  next
    case (Some v)
    have e1: "(incar(k := None)) |` (- set ks) = incar |` (- set (k # ks))"
      by (auto simp: restrict_map_def fun_eq_iff)
    have e2: "rm(k \<mapsto> v) ++ ((incar(k := None)) |` set ks) = rm ++ (incar |` set (k # ks))"
      using Some by (auto simp: restrict_map_def fun_eq_iff map_add_def split: option.splits)
    have "rm_incar (k # ks) (incar, rm) = rm_incar ks (incar(k := None), rm(k \<mapsto> v))"
      using Some by simp
    also have "\<dots> = ((incar(k := None)) |` (- set ks),
                      rm(k \<mapsto> v) ++ ((incar(k := None)) |` set ks))"
      by (rule Cons.IH)
    also have "\<dots> = (incar |` (- set (k # ks)), rm ++ (incar |` set (k # ks)))"
      by (simp only: e1 e2)
    finally show ?thesis .
  qed
qed

text \<open>
  Claim C7. For an \<^verbatim>\<open>MPRelaxSetEx\<close> built with the list \<open>ks\<close> as \<^verbatim>\<open>rm_incar_settings\<close>:
  a listed key that the INCAR category of the configuration has is gone from the
  active INCAR settings and is recorded, with the value it had, in the removed
  settings; a listed key that the category does not have is passed over, with no entry
  in the removed settings (the constructor is a total function: nothing is raised).
  A key that is not listed keeps its setting and is not recorded.
\<close>

theorem MPRelaxSetEx_removes_listed_keys:
  "(\<forall>k \<in> set ks. \<forall>v. INCAR CONFIG k = Some v \<longrightarrow>
      INCAR (ex_config_dict (MPRelaxSetEx_init structure ks ukp CONFIG)) k = None \<and>
      ex_rm_config_INCAR (MPRelaxSetEx_init structure ks ukp CONFIG) k = Some v) \<and>
   (\<forall>k \<in> set ks. INCAR CONFIG k = None \<longrightarrow>
      INCAR (ex_config_dict (MPRelaxSetEx_init structure ks ukp CONFIG)) k = None \<and>
      ex_rm_config_INCAR (MPRelaxSetEx_init structure ks ukp CONFIG) k = None) \<and>
   (\<forall>k. k \<notin> set ks \<longrightarrow>
      INCAR (ex_config_dict (MPRelaxSetEx_init structure ks ukp CONFIG)) k = INCAR CONFIG k \<and>
      ex_rm_config_INCAR (MPRelaxSetEx_init structure ks ukp CONFIG) k = None)"
  by (simp add: MPRelaxSetEx_init_def rm_incar_eq restrict_map_def map_add_def)

theorem MPRelaxSetEx_removes_listed_keys_witness:
  "INCAR (ex_config_dict (MPRelaxSetEx_init \<lparr>reduced_formula = ''Si''\<rparr> [''EDIFF'', ''MAGMOM'']
      None \<lparr>INCAR = [''EDIFF'' \<mapsto> FloatV 1 (-5), ''NSW'' \<mapsto> IntV 99],
            KPOINTS = Map.empty\<rparr>)) ''EDIFF'' = None \<and>
   ex_rm_config_INCAR (MPRelaxSetEx_init \<lparr>reduced_formula = ''Si''\<rparr> [''EDIFF'', ''MAGMOM'']
      None \<lparr>INCAR = [''EDIFF'' \<mapsto> FloatV 1 (-5), ''NSW'' \<mapsto> IntV 99],
            KPOINTS = Map.empty\<rparr>) ''EDIFF'' = Some (FloatV 1 (-5)) \<and>
   ex_rm_config_INCAR (MPRelaxSetEx_init \<lparr>reduced_formula = ''Si''\<rparr> [''EDIFF'', ''MAGMOM'']
      None \<lparr>INCAR = [''EDIFF'' \<mapsto> FloatV 1 (-5), ''NSW'' \<mapsto> IntV 99],
            KPOINTS = Map.empty\<rparr>) ''MAGMOM'' = None \<and>
   INCAR (ex_config_dict (MPRelaxSetEx_init \<lparr>reduced_formula = ''Si''\<rparr> [''EDIFF'', ''MAGMOM'']
      None \<lparr>INCAR = [''EDIFF'' \<mapsto> FloatV 1 (-5), ''NSW'' \<mapsto> IntV 99],
            KPOINTS = Map.empty\<rparr>)) ''NSW'' = Some (IntV 99)"
  using MPRelaxSetEx_removes_listed_keys [of "[''EDIFF'', ''MAGMOM'']"
      "\<lparr>INCAR = [''EDIFF'' \<mapsto> FloatV 1 (-5), ''NSW'' \<mapsto> IntV 99], KPOINTS = Map.empty\<rparr>"
      "\<lparr>reduced_formula = ''Si''\<rparr>" None]
  by simp

section \<open>The k-points of \<^verbatim>\<open>MPRelaxSetEx\<close>\<close>

text \<open>
  Claim C8, as stated, fails. The object below was given the non-empty
  \<^verbatim>\<open>user_kpoints_settings={"grid_density": 7000}\<close> and its KPOINTS category holds
  \<^verbatim>\<open>kpts = [2, 2, 2]\<close>: the property reads the user mapping only, finds no \<^verbatim>\<open>kpts\<close>
  there and returns the k-points of the base class, not the grid.
\<close>

theorem kpoints_config_kpts_counterexample:
  "KPOINTS (ex_config_dict (MPRelaxSetEx_init \<lparr>reduced_formula = ''Si''\<rparr> []
      (Some [(''grid_density'', IntV 7000)])
      \<lparr>INCAR = Map.empty, KPOINTS = [''kpts'' \<mapsto> ListV [IntV 2, IntV 2, IntV 2]]\<rparr>)) ''kpts''
     = Some (ListV [IntV 2, IntV 2, IntV 2]) \<and>
   kpoints (MPRelaxSetEx_init \<lparr>reduced_formula = ''Si''\<rparr> []
      (Some [(''grid_density'', IntV 7000)])
      \<lparr>INCAR = Map.empty, KPOINTS = [''kpts'' \<mapsto> ListV [IntV 2, IntV 2, IntV 2]]\<rparr>)
     = Inr Base_class_kpoints \<and>
   kpoints (MPRelaxSetEx_init \<lparr>reduced_formula = ''Si''\<rparr> []
      (Some [(''grid_density'', IntV 7000)])
      \<lparr>INCAR = Map.empty, KPOINTS = [''kpts'' \<mapsto> ListV [IntV 2, IntV 2, IntV 2]]\<rparr>)
     \<noteq> Inr (Gamma_automatic [IntV 2, IntV 2, IntV 2])"
  by (simp add: MPRelaxSetEx_init_def kpoints_def)

text \<open>
  Claim C8, amended. The property reads one mapping: \<^verbatim>\<open>user_kpoints_settings\<close> when it
  is not empty, the KPOINTS category otherwise (when it is \<^verbatim>\<open>None\<close> or empty). A
  non-empty list under \<^verbatim>\<open>kpts\<close> in that mapping gives the gamma-centred grid of its
  items; no \<^verbatim>\<open>kpts\<close> entry there, or a false one, gives the k-points of the base class.
\<close>

theorem kpoints_of_selected_settings:
  "(ex_user_kpoints_settings self = Some u \<and> u \<noteq> [] \<and>
      map_of u ''kpts'' = Some (ListV g) \<and> g \<noteq> [] \<longrightarrow>
      kpoints self = Inr (Gamma_automatic g)) \<and>
   ((ex_user_kpoints_settings self = None \<or> ex_user_kpoints_settings self = Some []) \<and>
      KPOINTS (ex_config_dict self) ''kpts'' = Some (ListV g) \<and> g \<noteq> [] \<longrightarrow>
      kpoints self = Inr (Gamma_automatic g)) \<and>
   (ex_user_kpoints_settings self = Some u \<and> u \<noteq> [] \<and>
      (map_of u ''kpts'' = None \<or> (\<exists>v. map_of u ''kpts'' = Some v \<and> \<not> truthy v)) \<longrightarrow>
      kpoints self = Inr Base_class_kpoints) \<and>
   ((ex_user_kpoints_settings self = None \<or> ex_user_kpoints_settings self = Some []) \<and>
      (KPOINTS (ex_config_dict self) ''kpts'' = None \<or>
       (\<exists>v. KPOINTS (ex_config_dict self) ''kpts'' = Some v \<and> \<not> truthy v)) \<longrightarrow>
      kpoints self = Inr Base_class_kpoints)"
  by (auto simp: kpoints_def Let_def split: option.splits)

theorem kpoints_of_selected_settings_witness:
  "kpoints (MPRelaxSetEx_init \<lparr>reduced_formula = ''Si''\<rparr> []
      (Some [(''kpts'', ListV [IntV 2, IntV 2, IntV 2])])
      \<lparr>INCAR = Map.empty, KPOINTS = [''reciprocal_density'' \<mapsto> IntV 64]\<rparr>)
     = Inr (Gamma_automatic [IntV 2, IntV 2, IntV 2]) \<and>
   kpoints (MPRelaxSetEx_init \<lparr>reduced_formula = ''Si''\<rparr> [] None
      \<lparr>INCAR = Map.empty, KPOINTS = [''kpts'' \<mapsto> ListV [IntV 3, IntV 3, IntV 1]]\<rparr>)
     = Inr (Gamma_automatic [IntV 3, IntV 3, IntV 1]) \<and>
   kpoints (MPRelaxSetEx_init \<lparr>reduced_formula = ''Si''\<rparr> []
      (Some [(''grid_density'', IntV 7000)])
      \<lparr>INCAR = Map.empty, KPOINTS = [''kpts'' \<mapsto> ListV [IntV 3, IntV 3, IntV 1]]\<rparr>)
     = Inr Base_class_kpoints \<and>
   kpoints (MPRelaxSetEx_init \<lparr>reduced_formula = ''Si''\<rparr> [] None
      \<lparr>INCAR = Map.empty, KPOINTS = [''reciprocal_density'' \<mapsto> IntV 64]\<rparr>)
     = Inr Base_class_kpoints"
  using
    kpoints_of_selected_settings [of "MPRelaxSetEx_init \<lparr>reduced_formula = ''Si''\<rparr> []
      (Some [(''kpts'', ListV [IntV 2, IntV 2, IntV 2])])
      \<lparr>INCAR = Map.empty, KPOINTS = [''reciprocal_density'' \<mapsto> IntV 64]\<rparr>"
      "[(''kpts'', ListV [IntV 2, IntV 2, IntV 2])]" "[IntV 2, IntV 2, IntV 2]"]
    kpoints_of_selected_settings [of "MPRelaxSetEx_init \<lparr>reduced_formula = ''Si''\<rparr> [] None
      \<lparr>INCAR = Map.empty, KPOINTS = [''kpts'' \<mapsto> ListV [IntV 3, IntV 3, IntV 1]]\<rparr>"
      "[]" "[IntV 3, IntV 3, IntV 1]"]
    kpoints_of_selected_settings [of "MPRelaxSetEx_init \<lparr>reduced_formula = ''Si''\<rparr> []
      (Some [(''grid_density'', IntV 7000)])
      \<lparr>INCAR = Map.empty, KPOINTS = [''kpts'' \<mapsto> ListV [IntV 3, IntV 3, IntV 1]]\<rparr>"
      "[(''grid_density'', IntV 7000)]" "[]"]
    kpoints_of_selected_settings [of "MPRelaxSetEx_init \<lparr>reduced_formula = ''Si''\<rparr> [] None
      \<lparr>INCAR = Map.empty, KPOINTS = [''reciprocal_density'' \<mapsto> IntV 64]\<rparr>"
      "[]" "[]"]
  by (simp add: MPRelaxSetEx_init_def)

section \<open>\<^verbatim>\<open>OptimizeStepFW\<close> with the default \<^verbatim>\<open>override_default_vasp_params\<close>\<close>

text \<open>
  Claim C10, as stated, fails. With \<^verbatim>\<open>step_index = 0\<close>, an input set given and
  \<^verbatim>\<open>override_default_vasp_params\<close> left at \<^verbatim>\<open>None\<close>, the operand of \<^verbatim>\<open>or\<close> that unpacks
  the parameters is not evaluated, and the constructor does not raise.
\<close>

theorem OptimizeStepFW_default_params_counterexample:
  "fst (OptimizeStepFW_init \<lparr>reduced_formula = ''Si''\<rparr> 0 ''Relax''
         (Some (MPRelaxSet \<lparr>reduced_formula = ''Si''\<rparr> True)) ''vasp'' None None ''normal''
         None [] \<lparr>heap = Map.empty, next_addr = 0, next_fw_id = 0\<rparr>) \<noteq> Inl TypeError"
  by (simp add: OptimizeStepFW_init_def new_fw_def Let_def)

text \<open>
  Claim C10, amended. With \<^verbatim>\<open>override_default_vasp_params\<close> left at \<^verbatim>\<open>None\<close>, the
  constructor raises \<^verbatim>\<open>TypeError\<close> for every non-zero \<^verbatim>\<open>step_index\<close>, and for
  \<^verbatim>\<open>step_index = 0\<close> when no input set is given; the store is as it was. For
  \<^verbatim>\<open>step_index = 0\<close> with an input set given it returns a task unit.
\<close>

theorem OptimizeStepFW_default_params:
  "((step_index \<noteq> 0 \<or> vasp_input_set = None) \<longrightarrow>
      OptimizeStepFW_init structure step_index name vasp_input_set vasp_cmd None ediffg
        job_type db_file parents s = (Inl TypeError, s)) \<and>
   ((step_index = 0 \<and> vasp_input_set \<noteq> None) \<longrightarrow>
      (\<exists>fw. fst (OptimizeStepFW_init structure step_index name vasp_input_set vasp_cmd None
                   ediffg job_type db_file parents s) = Inr fw))"
  by (auto simp: OptimizeStepFW_init_def unpack_kwargs_def new_fw_def Let_def)

theorem OptimizeStepFW_default_params_witness:
  "OptimizeStepFW_init \<lparr>reduced_formula = ''Si''\<rparr> 1 ''Relax''
         (Some (MPRelaxSet \<lparr>reduced_formula = ''Si''\<rparr> True)) ''vasp'' None None ''normal''
         None [] \<lparr>heap = Map.empty, next_addr = 0, next_fw_id = 0\<rparr>
     = (Inl TypeError, \<lparr>heap = Map.empty, next_addr = 0, next_fw_id = 0\<rparr>) \<and>
   (\<exists>fw. fst (OptimizeStepFW_init \<lparr>reduced_formula = ''Si''\<rparr> 0 ''Relax''
         (Some (MPRelaxSet \<lparr>reduced_formula = ''Si''\<rparr> True)) ''vasp'' None None ''normal''
         None [] \<lparr>heap = Map.empty, next_addr = 0, next_fw_id = 0\<rparr>) = Inr fw)"
  using
    OptimizeStepFW_default_params [of 1 "Some (MPRelaxSet \<lparr>reduced_formula = ''Si''\<rparr> True)"
      "\<lparr>reduced_formula = ''Si''\<rparr>" "''Relax''" "''vasp''" None "''normal''" None "[]"
      "\<lparr>heap = Map.empty, next_addr = 0, next_fw_id = 0\<rparr>"]
    OptimizeStepFW_default_params [of 0 "Some (MPRelaxSet \<lparr>reduced_formula = ''Si''\<rparr> True)"
      "\<lparr>reduced_formula = ''Si''\<rparr>" "''Relax''" "''vasp''" None "''normal''" None "[]"
      "\<lparr>heap = Map.empty, next_addr = 0, next_fw_id = 0\<rparr>"]
  by simp

section \<open>The assemblers in closed form\<close>

lemma update_kpoints_uis:
  "update_kpoints ukp d ''user_incar_settings'' = d ''user_incar_settings''"
  by (simp add: update_kpoints_def split: option.splits)

lemma update_kpoints_upd:
  "(update_kpoints ukp (d(''user_incar_settings'' := x)))(''user_incar_settings'' := None)
     = (update_kpoints ukp d)(''user_incar_settings'' := None)"
  by (auto simp add: update_kpoints_def fun_eq_iff split: option.splits)

lemmas prim_defs = as_dict_def get_user_incar_settings_def dict_update_def from_dict_def
  new_dict_def new_fw_def deref_def derived_def alloc2_def bump_fw_def user_incar_settings_def
  update_kpoints_uis update_kpoints_upd Workflow_def Let_def

lemma snd_get_wf_dispersion:
  "snd (get_wf_dispersion structure vasp_input_set vasp_cmd db_file mode supercell
          user_kpoints_settings optimize_structure tag s0) =
   (let vis = (case vasp_input_set of Some v \<Rightarrow> v | None \<Rightarrow> MPRelaxSet structure True);
        s1 = (if optimize_structure
              then bump_fw (alloc2 (user_incar_settings s0 vis ++ uis_common) s0) else s0)
    in if mode = ''force'' then
         bump_fw (bump_fw (alloc2 (user_incar_settings s1 vis ++ uis_common ++ uis_force) s1))
       else if mode = ''hessian'' then
         bump_fw (alloc2 (user_incar_settings s1 vis ++ uis_common ++ uis_hessian) s1)
       else snd (new_dict (user_incar_settings s1 vis ++ uis_common) s1))"
proof -
  define vis where
    "vis = (case vasp_input_set of Some v \<Rightarrow> v | None \<Rightarrow> MPRelaxSet structure True)"
  show ?thesis
    unfolding get_wf_dispersion_def vis_def [symmetric]
    by (cases "uis_ref vis") (simp_all add: prim_defs)
qed

lemma fst_get_wf_dispersion:
  "fst (get_wf_dispersion structure vasp_input_set vasp_cmd db_file mode supercell
          user_kpoints_settings optimize_structure tag s0) =
   (let vis = (case vasp_input_set of Some v \<Rightarrow> v | None \<Rightarrow> MPRelaxSet structure True);
        n = next_addr s0;
        f = next_fw_id s0;
        fws =
          (if optimize_structure then
             [\<lparr>fw_id = f, fw_parents = [],
               fw_call = OptimizeFW structure (derived vis user_kpoints_settings (Suc n))
                           vasp_cmd db_file
                           (if mode = ''force'' then Some (tag @ '' structure optimization'')
                            else None)\<rparr>]
           else []);
        parent2 = (if optimize_structure then [f] else []);
        n1 = (if optimize_structure then Suc (Suc n) else n);
        f1 = (if optimize_structure then Suc f else f)
    in if mode = ''force'' then
         Inr \<lparr>wf_fws = fws @
                 [\<lparr>fw_id = f1, fw_parents = parent2,
                   fw_call = DispersionFW structure
                               (derived vis user_kpoints_settings (Suc n1)) vasp_cmd db_file
                               mode supercell (Some (tag @ '' dispersion''))\<rparr>,
                  \<lparr>fw_id = Suc f1, fw_parents = [f1],
                   fw_call = Firework [DispersionAnalysisTask tag db_file mode supercell]
                               (reduced_formula structure @ ''-dispersion_force: analysis'')\<rparr>],
              wf_name = reduced_formula structure @ ''-dispersion''\<rparr>
       else if mode = ''hessian'' then
         Inr \<lparr>wf_fws = fws @
                 [\<lparr>fw_id = f1, fw_parents = parent2,
                   fw_call = DispersionFW structure
                               (derived vis user_kpoints_settings (Suc n1)) vasp_cmd db_file
                               mode supercell None\<rparr>],
              wf_name = reduced_formula structure @ ''-dispersion''\<rparr>
       else Inl (ValueError mode_message))"
proof -
  define vis where
    "vis = (case vasp_input_set of Some v \<Rightarrow> v | None \<Rightarrow> MPRelaxSet structure True)"
  show ?thesis
    unfolding get_wf_dispersion_def vis_def [symmetric]
    by (cases "uis_ref vis") (simp_all add: prim_defs)
qed


lemma snd_get_wf_thermal_conductivity:
  "snd (get_wf_thermal_conductivity structure vasp_input_set mode vasp_cmd third_cmd db_file
          supercell cutoff_3rd user_kpoints_settings optimize_structure tag s0) =
   (let vis = (case vasp_input_set of Some v \<Rightarrow> v | None \<Rightarrow> MPRelaxSet structure True);
        s1 = (if optimize_structure
              then bump_fw (alloc2 (user_incar_settings s0 vis ++ uis_common) s0) else s0)
    in if mode = ''force'' then
         (let s9 = bump_fw (bump_fw
                     (alloc2 (user_incar_settings s1 vis ++ uis_common ++ uis_force) s1))
          in bump_fw (bump_fw
               (alloc2 (user_incar_settings s9 vis ++ uis_common ++ uis_force) s9)))
       else if mode = ''hessian'' then
         (let s9 = bump_fw
                     (alloc2 (user_incar_settings s1 vis ++ uis_common ++ uis_hessian) s1)
          in bump_fw (bump_fw
               (alloc2 (user_incar_settings s9 vis ++ uis_common ++ uis_force) s9)))
       else snd (new_dict (user_incar_settings s1 vis ++ uis_common) s1))"
proof -
  define vis where
    "vis = (case vasp_input_set of Some v \<Rightarrow> v | None \<Rightarrow> MPRelaxSet structure True)"
  show ?thesis
    unfolding get_wf_thermal_conductivity_def vis_def [symmetric]
    by (cases "uis_ref vis") (simp_all add: prim_defs)
qed

lemma fst_get_wf_thermal_conductivity:
  "fst (get_wf_thermal_conductivity structure vasp_input_set mode vasp_cmd third_cmd db_file
          supercell cutoff_3rd user_kpoints_settings optimize_structure tag s0) =
   (let vis = (case vasp_input_set of Some v \<Rightarrow> v | None \<Rightarrow> MPRelaxSet structure True);
        n = next_addr s0;
        f = next_fw_id s0;
        fws =
          (if optimize_structure then
             [\<lparr>fw_id = f, fw_parents = [],
               fw_call = OptimizeFW structure (derived vis user_kpoints_settings (Suc n))
                           vasp_cmd db_file (Some (tag @ '' structure optimization''))\<rparr>]
           else []);
        parent1 = (if optimize_structure then [f] else []);
        n1 = (if optimize_structure then Suc (Suc n) else n);
        f1 = (if optimize_structure then Suc f else f);
        fw2 = \<lparr>fw_id = f1, fw_parents = parent1,
               fw_call = DispersionFW structure (derived vis user_kpoints_settings (Suc n1))
                           vasp_cmd db_file mode supercell (Some (tag @ '' dispersion''))\<rparr>
    in if mode = ''force'' then
         Inr \<lparr>wf_fws = fws @
                 [fw2,
                  \<lparr>fw_id = Suc f1, fw_parents = [f1],
                   fw_call = Firework
                               [PassCalcLocs (reduced_formula structure @ ''-'' @ tag
                                  @ '' dispersion''),
                                DispersionAnalysisTask tag db_file mode supercell]
                               (reduced_formula structure @ ''-'' @ tag @ '' dispersion'')\<rparr>,
                  \<lparr>fw_id = Suc (Suc f1), fw_parents = parent1,
                   fw_call = ThirdOrderFW structure
                               (derived vis user_kpoints_settings (Suc (Suc (Suc n1))))
                               third_cmd vasp_cmd db_file supercell cutoff_3rd
                               (tag @ '' thirdorder'')\<rparr>,
                  \<lparr>fw_id = Suc (Suc (Suc f1)), fw_parents = [Suc f1, Suc (Suc f1)],
                   fw_call = Firework
                               [ThermalConductivityTask tag db_file third_cmd supercell
                                  cutoff_3rd]
                               (reduced_formula structure @ ''-thermal conductivity'')\<rparr>],
              wf_name = reduced_formula structure @ ''-thermal conductivity''\<rparr>
       else if mode = ''hessian'' then
         Inr \<lparr>wf_fws = fws @
                 [fw2,
                  \<lparr>fw_id = Suc f1, fw_parents = parent1,
                   fw_call = ThirdOrderFW structure
                               (derived vis user_kpoints_settings (Suc (Suc (Suc n1))))
                               third_cmd vasp_cmd db_file supercell cutoff_3rd
                               (tag @ '' thirdorder'')\<rparr>,
                  \<lparr>fw_id = Suc (Suc f1), fw_parents = [f1, Suc f1],
                   fw_call = Firework
                               [ThermalConductivityTask tag db_file third_cmd supercell
                                  cutoff_3rd]
                               (reduced_formula structure @ ''-thermal conductivity'')\<rparr>],
              wf_name = reduced_formula structure @ ''-thermal conductivity''\<rparr>
       else Inl (ValueError mode_message))"
proof -
  define vis where
    "vis = (case vasp_input_set of Some v \<Rightarrow> v | None \<Rightarrow> MPRelaxSet structure True)"
  show ?thesis
    unfolding get_wf_thermal_conductivity_def vis_def [symmetric]
    by (cases "uis_ref vis") (simp_all add: prim_defs)
qed


lemma heap_alloc2 [simp]: "a < next_addr s \<Longrightarrow> heap (alloc2 d s) a = heap s a"
  by (simp add: alloc2_def)

lemma next_addr_alloc2 [simp]: "next_addr (alloc2 d s) = Suc (Suc (next_addr s))"
  by (simp add: alloc2_def)

lemma heap_bump_fw [simp]: "heap (bump_fw s) = heap s"
  by (simp add: bump_fw_def)

lemma next_addr_bump_fw [simp]: "next_addr (bump_fw s) = next_addr s"
  by (simp add: bump_fw_def)

lemma heap_new_dict [simp]: "a < next_addr s \<Longrightarrow> heap (snd (new_dict d s)) a = heap s a"
  by (simp add: new_dict_def)

lemma uis_alloc2 [simp]:
  "in_store s v \<Longrightarrow> user_incar_settings (alloc2 d s) v = user_incar_settings s v"
  by (cases "uis_ref v") (simp_all add: user_incar_settings_def in_store_def deref_def)

lemma uis_bump_fw [simp]: "user_incar_settings (bump_fw s) v = user_incar_settings s v"
  by (simp add: user_incar_settings_def deref_def split: option.splits)

lemma uis_derived [simp]:
  "next_addr s = n \<Longrightarrow> user_incar_settings (alloc2 d s) (derived v ukp (Suc n)) = d"
  by (simp add: user_incar_settings_def deref_def derived_def alloc2_def)

lemma in_store_alloc2 [simp]: "in_store s v \<Longrightarrow> in_store (alloc2 d s) v"
  by (cases "uis_ref v") (simp_all add: in_store_def)

lemma in_store_bump_fw [simp]: "in_store (bump_fw s) v = in_store s v"
  by (simp add: in_store_def split: option.splits)

lemma in_store_derived [simp]:
  "next_addr s = n \<Longrightarrow> in_store (alloc2 d s) (derived v ukp (Suc n))"
  by (simp add: in_store_def derived_def)

lemma heap_get_wf_dispersion:
  assumes "a < next_addr s"
  shows "heap (snd (get_wf_dispersion st vis cmd db mode sc ukp opt tag s)) a = heap s a"
  using assms by (simp add: snd_get_wf_dispersion Let_def)

lemma heap_get_wf_thermal_conductivity:
  assumes "a < next_addr s"
  shows "heap (snd (get_wf_thermal_conductivity st vis mode cmd tcmd db sc cutoff ukp opt
                      tag s)) a = heap s a"
  using assms by (simp add: snd_get_wf_thermal_conductivity Let_def)

lemma serialized_frame:
  assumes "in_store s v" and "\<And>a. a < next_addr s \<Longrightarrow> heap s' a = heap s a"
  shows "serialized s' v = serialized s v"
  using assms by (cases "uis_ref v") (simp_all add: serialized_def in_store_def deref_def)

text \<open>
  Claim C4. The serialised form of the input set handed to an assembler, its
  \<^verbatim>\<open>user_incar_settings\<close> mapping included, is the same in the store the call leaves as
  in the store it was given: for every mode (the invalid ones too) and all other
  arguments, for both assemblers. The input set refers to a mapping that exists.
  (\<open>as_dict\<close> is the serialisation described by the specification, which copies.)
\<close>

theorem base_input_set_not_mutated:
  assumes "in_store s vis"
  shows "serialized (snd (get_wf_dispersion st (Some vis) cmd db mode sc ukp opt tag s)) vis
           = serialized s vis \<and>
         serialized (snd (get_wf_thermal_conductivity st (Some vis) mode cmd tcmd db sc cutoff
                            ukp opt tag s)) vis
           = serialized s vis"
proof
  show "serialized (snd (get_wf_dispersion st (Some vis) cmd db mode sc ukp opt tag s)) vis
          = serialized s vis"
    using assms by (rule serialized_frame) (rule heap_get_wf_dispersion)
  show "serialized (snd (get_wf_thermal_conductivity st (Some vis) mode cmd tcmd db sc cutoff
                           ukp opt tag s)) vis
          = serialized s vis"
    using assms by (rule serialized_frame) (rule heap_get_wf_thermal_conductivity)
qed

theorem base_input_set_not_mutated_witness:
  "in_store store0 vis0 \<and>
   serialized (snd (get_wf_dispersion Si (Some vis0) ''vasp'' None ''force'' supercell3 None
                      True ''t'' store0)) vis0
     = serialized store0 vis0 \<and>
   serialized (snd (get_wf_thermal_conductivity Si (Some vis0) ''force'' ''vasp''
                      ''thirdorder_vasp.py'' None supercell3 (IntV (- 4)) None True ''t''
                      store0)) vis0
     = serialized store0 vis0"
proof -
  have h: "in_store store0 vis0"
    by (simp add: in_store_def store0_def vis0_def)
  show ?thesis
    using h base_input_set_not_mutated [OF h, of Si "''vasp''" None "''force''" supercell3 None
        True "''t''" "''thirdorder_vasp.py''" "IntV (- 4)"]
    by simp
qed


lemmas read_defs = unit_kind_def units_of_def ids_of_def dispersion_settings_def
  dispersion_input_sets_def Let_def

text \<open>
  Claim C1. With mode \<^verbatim>\<open>"force"\<close> the workflow of \<^verbatim>\<open>get_wf_dispersion\<close> has exactly two
  units without the relaxation (the dispersion unit, then the analysis unit) and exactly
  three with it (the optimize unit first); with mode \<^verbatim>\<open>"hessian"\<close> it has exactly one
  unit without the relaxation and exactly two with it, and none of them is an analysis
  unit. This holds for every structure, input set, command, db file, supercell, k-point
  settings, tag and store.
\<close>

theorem get_wf_dispersion_unit_count:
  "(\<exists>w. fst (get_wf_dispersion st vis cmd db ''force'' sc ukp False tag s) = Inr w \<and>
        length (wf_fws w) = 2 \<and> map unit_kind (wf_fws w) = [DispersionUnit, AnalysisUnit]) \<and>
   (\<exists>w. fst (get_wf_dispersion st vis cmd db ''force'' sc ukp True tag s) = Inr w \<and>
        length (wf_fws w) = 3 \<and>
        map unit_kind (wf_fws w) = [OptimizeUnit, DispersionUnit, AnalysisUnit]) \<and>
   (\<exists>w. fst (get_wf_dispersion st vis cmd db ''hessian'' sc ukp False tag s) = Inr w \<and>
        length (wf_fws w) = 1 \<and> map unit_kind (wf_fws w) = [DispersionUnit]) \<and>
   (\<exists>w. fst (get_wf_dispersion st vis cmd db ''hessian'' sc ukp True tag s) = Inr w \<and>
        length (wf_fws w) = 2 \<and> map unit_kind (wf_fws w) = [OptimizeUnit, DispersionUnit])"
  by (simp add: fst_get_wf_dispersion read_defs)


text \<open>
  Claim C2. For a valid mode, \<^verbatim>\<open>get_wf_thermal_conductivity\<close> returns a workflow whose
  units are, in order, the optimize unit (only when \<^verbatim>\<open>optimize_structure\<close>), the
  dispersion unit, the analysis unit (only in mode \<^verbatim>\<open>"force"\<close>), the third-order unit
  and the thermal conductivity unit. The parents of the third-order unit are the
  optimize units of the workflow (one, or none). The parents of the thermal
  conductivity unit are the last unit of the dispersion branch (the analysis unit in
  mode \<^verbatim>\<open>"force"\<close>, the dispersion unit in mode \<^verbatim>\<open>"hessian"\<close>) followed by the
  third-order unit.
\<close>

theorem get_wf_thermal_conductivity_parents:
  assumes "mode = ''force'' \<or> mode = ''hessian''"
  shows "\<exists>w. fst (get_wf_thermal_conductivity st vis mode cmd tcmd db sc cutoff ukp opt tag s)
               = Inr w \<and>
           map unit_kind (wf_fws w) =
             (if opt then [OptimizeUnit] else []) @
             (if mode = ''force'' then [DispersionUnit, AnalysisUnit] else [DispersionUnit]) @
             [ThirdOrderUnit, ThermalConductivityUnit] \<and>
           map fw_parents (units_of ThirdOrderUnit w) = [ids_of OptimizeUnit w] \<and>
           map fw_parents (units_of ThermalConductivityUnit w) =
             [ids_of (if mode = ''force'' then AnalysisUnit else DispersionUnit) w @
              ids_of ThirdOrderUnit w]"
  using assms by (auto simp add: fst_get_wf_thermal_conductivity read_defs)

theorem get_wf_thermal_conductivity_parents_witness:
  "\<exists>w. fst (get_wf_thermal_conductivity Si (Some vis0) ''force'' ''vasp''
               ''thirdorder_vasp.py'' None supercell3 (IntV (- 4)) None True ''t'' store0)
          = Inr w \<and>
        map unit_kind (wf_fws w) =
          [OptimizeUnit, DispersionUnit, AnalysisUnit, ThirdOrderUnit,
           ThermalConductivityUnit] \<and>
        map fw_parents (units_of ThirdOrderUnit w) = [ids_of OptimizeUnit w] \<and>
        map fw_parents (units_of ThermalConductivityUnit w) =
          [ids_of AnalysisUnit w @ ids_of ThirdOrderUnit w]"
  using get_wf_thermal_conductivity_parents [of "''force''" Si "Some vis0" "''vasp''"
      "''thirdorder_vasp.py''" None supercell3 "IntV (- 4)" None True "''t''" store0]
  by simp


text \<open>
  Claim C3. With a mode other than \<^verbatim>\<open>"force"\<close> and \<^verbatim>\<open>"hessian"\<close>, both assemblers end
  in the exception of the \<^verbatim>\<open>else\<close> branch, the \<^verbatim>\<open>ValueError\<close> with the message about
  the mode (the error the specification calls InvalidModeError); the result is the
  exception, so no workflow is returned.
\<close>

theorem invalid_mode_raises:
  assumes "mode \<noteq> ''force''" and "mode \<noteq> ''hessian''"
  shows "fst (get_wf_dispersion st vis cmd db mode sc ukp opt tag s)
           = Inl (ValueError mode_message) \<and>
         fst (get_wf_thermal_conductivity st vis mode cmd tcmd db sc cutoff ukp opt tag s)
           = Inl (ValueError mode_message)"
  using assms
  by (simp add: fst_get_wf_dispersion fst_get_wf_thermal_conductivity Let_def)

theorem invalid_mode_raises_witness:
  "fst (get_wf_dispersion Si (Some vis0) ''vasp'' None ''bogus'' supercell3 None True ''t''
          store0) = Inl (ValueError mode_message) \<and>
   fst (get_wf_thermal_conductivity Si (Some vis0) ''bogus'' ''vasp'' ''thirdorder_vasp.py''
          None supercell3 (IntV (- 4)) None True ''t'' store0) = Inl (ValueError mode_message)"
  using invalid_mode_raises [of "''bogus''" Si "Some vis0" "''vasp''" None supercell3 None True
      "''t''" store0 "''thirdorder_vasp.py''" "IntV (- 4)"]
  by simp


lemma map_add_twice: "(m ++ c ++ ov) ++ c ++ ov = m ++ c ++ (ov :: 'a \<rightharpoonup> 'b)"
  by (auto simp: fun_eq_iff map_add_def split: option.splits)

lemma dispersion_settings_map:
  "dispersion_settings s w = map (user_incar_settings s) (dispersion_input_sets w)"
  by (simp add: dispersion_settings_def dispersion_input_sets_def map_concat comp_def)

lemma uis_get_wf_dispersion:
  assumes "in_store s v"
  shows "user_incar_settings (snd (get_wf_dispersion st vis cmd db mode sc ukp opt tag s)) v
           = user_incar_settings s v"
proof (cases "uis_ref v")
  case None
  then show ?thesis by (simp add: user_incar_settings_def)
next
  case (Some a)
  with assms have "a < next_addr s" by (simp add: in_store_def)
  then show ?thesis
    using Some by (simp add: user_incar_settings_def deref_def heap_get_wf_dispersion)
qed

lemma next_addr_new_dict [simp]: "next_addr (snd (new_dict d s)) = Suc (next_addr s)"
  by (simp add: new_dict_def)

lemma next_addr_get_wf_dispersion:
  "next_addr s \<le> next_addr (snd (get_wf_dispersion st vis cmd db mode sc ukp opt tag s))"
  by (simp add: snd_get_wf_dispersion Let_def)

lemma in_store_get_wf_dispersion:
  assumes "in_store s v"
  shows "in_store (snd (get_wf_dispersion st vis cmd db mode sc ukp opt tag s)) v"
proof (cases "uis_ref v")
  case None
  then show ?thesis by (simp add: in_store_def)
next
  case (Some a)
  with assms have "a < next_addr s" by (simp add: in_store_def)
  also note next_addr_get_wf_dispersion
  finally show ?thesis using Some by (simp add: in_store_def)
qed

lemma get_wf_dispersion_derived:
  assumes "in_store s vis" and "mode = ''force'' \<or> mode = ''hessian''"
  shows "\<exists>w vd. fst (get_wf_dispersion st (Some vis) cmd db mode sc ukp opt tag s) = Inr w \<and>
           dispersion_input_sets w = [vd] \<and>
           in_store (snd (get_wf_dispersion st (Some vis) cmd db mode sc ukp opt tag s)) vd \<and>
           user_incar_settings
             (snd (get_wf_dispersion st (Some vis) cmd db mode sc ukp opt tag s)) vd
             = user_incar_settings s vis ++ uis_common ++
                 (if mode = ''force'' then uis_force else uis_hessian)"
  using assms
  by (cases opt)
     (auto simp add: fst_get_wf_dispersion snd_get_wf_dispersion read_defs)

text \<open>
  Claim C5. For both modes and every base input set, the workflow of
  \<^verbatim>\<open>get_wf_dispersion\<close> has one dispersion unit, and the user INCAR settings \<open>d\<close> of its
  input set hold \<^verbatim>\<open>EDIFF = 1e-08\<close> and the constants of the mode (force: \<^verbatim>\<open>IBRION = 2\<close>,
  \<^verbatim>\<open>ISMEAR = 0\<close>, \<^verbatim>\<open>ISPIN = 1\<close>, \<^verbatim>\<open>NSW = 0\<close>; hessian: \<^verbatim>\<open>IBRION = 6\<close>, \<^verbatim>\<open>ISMEAR = 0\<close>,
  \<^verbatim>\<open>ISPIN = 1\<close>, \<^verbatim>\<open>NSW = 1\<close>, \<^verbatim>\<open>POTIM = 0.015\<close>), whatever the base had under these keys;
  every other key has what the base has, a value or nothing.
\<close>

theorem dispersion_settings_merge:
  assumes "in_store s vis"
  shows
    "(\<exists>w d. fst (get_wf_dispersion st (Some vis) cmd db ''force'' sc ukp opt tag s) = Inr w \<and>
        dispersion_settings
          (snd (get_wf_dispersion st (Some vis) cmd db ''force'' sc ukp opt tag s)) w = [d] \<and>
        d ''EDIFF'' = Some (FloatV 1 (-8)) \<and> d ''IBRION'' = Some (IntV 2) \<and>
        d ''ISMEAR'' = Some (IntV 0) \<and> d ''ISPIN'' = Some (IntV 1) \<and>
        d ''NSW'' = Some (IntV 0) \<and>
        (\<forall>k. k \<notin> {''EDIFF'', ''IBRION'', ''ISMEAR'', ''ISPIN'', ''NSW''} \<longrightarrow>
           d k = user_incar_settings s vis k)) \<and>
     (\<exists>w d. fst (get_wf_dispersion st (Some vis) cmd db ''hessian'' sc ukp opt tag s) = Inr w \<and>
        dispersion_settings
          (snd (get_wf_dispersion st (Some vis) cmd db ''hessian'' sc ukp opt tag s)) w = [d] \<and>
        d ''EDIFF'' = Some (FloatV 1 (-8)) \<and> d ''IBRION'' = Some (IntV 6) \<and>
        d ''ISMEAR'' = Some (IntV 0) \<and> d ''ISPIN'' = Some (IntV 1) \<and>
        d ''NSW'' = Some (IntV 1) \<and> d ''POTIM'' = Some (FloatV 15 (-3)) \<and>
        (\<forall>k. k \<notin> {''EDIFF'', ''IBRION'', ''ISMEAR'', ''ISPIN'', ''NSW'', ''POTIM''} \<longrightarrow>
           d k = user_incar_settings s vis k))"
proof -
  have force: "''force'' = ''force'' \<or> ''force'' = ''hessian''" by simp
  have hessian: "''hessian'' = ''force'' \<or> ''hessian'' = ''hessian''" by simp
  show ?thesis
    using get_wf_dispersion_derived [OF assms force, of st cmd db sc ukp opt tag]
      get_wf_dispersion_derived [OF assms hessian, of st cmd db sc ukp opt tag]
    by (auto simp add: dispersion_settings_map uis_common_def uis_force_def uis_hessian_def
          map_add_def)
qed

theorem dispersion_settings_merge_witness:
  "in_store store0 vis0 \<and>
   (\<exists>w d. fst (get_wf_dispersion Si (Some vis0) ''vasp'' None ''hessian'' supercell3 None True
                 ''t'' store0) = Inr w \<and>
      dispersion_settings
        (snd (get_wf_dispersion Si (Some vis0) ''vasp'' None ''hessian'' supercell3 None True
                ''t'' store0)) w = [d] \<and>
      d ''EDIFF'' = Some (FloatV 1 (-8)) \<and> d ''IBRION'' = Some (IntV 6) \<and>
      d ''POTIM'' = Some (FloatV 15 (-3)) \<and> d ''ENCUT'' = Some (IntV 520))"
proof -
  have h: "in_store store0 vis0"
    by (simp add: in_store_def store0_def vis0_def)
  have base: "user_incar_settings store0 vis0 ''ENCUT'' = Some (IntV 520)"
    by (simp add: user_incar_settings_def deref_def store0_def vis0_def)
  show ?thesis
    using h base
      dispersion_settings_merge [OF h, of Si "''vasp''" None supercell3 None True "''t''"]
    by fastforce
qed


text \<open>
  Claim C6. Deriving the dispersion settings is idempotent. Run the assembler from a
  base (\<open>r1\<close>), then again from the same base in the store the first run left (\<open>r2\<close>):
  the second run derives the same settings as the first, and the settings the first
  run derived are still what they were. Run it from the input set the first run
  derived (\<open>r3\<close>), that is, apply the derivation twice: the settings are those of
  applying it once.
\<close>

theorem derivation_idempotent:
  assumes "in_store s vis" and "mode = ''force'' \<or> mode = ''hessian''"
  shows
    "let r1 = get_wf_dispersion st (Some vis) cmd db mode sc ukp opt tag s;
         r2 = get_wf_dispersion st (Some vis) cmd db mode sc ukp opt tag2 (snd r1)
     in \<exists>w1 w2 vd.
          fst r1 = Inr w1 \<and> fst r2 = Inr w2 \<and>
          dispersion_settings (snd r2) w2 = dispersion_settings (snd r1) w1 \<and>
          dispersion_settings (snd r2) w1 = dispersion_settings (snd r1) w1 \<and>
          dispersion_input_sets w1 = [vd] \<and>
          (let r3 = get_wf_dispersion st (Some vd) cmd db mode sc ukp opt tag3 (snd r1)
           in \<exists>w3. fst r3 = Inr w3 \<and>
                dispersion_settings (snd r3) w3 = dispersion_settings (snd r1) w1)"
proof -
  define r1 where "r1 = get_wf_dispersion st (Some vis) cmd db mode sc ukp opt tag s"
  define r2 where "r2 = get_wf_dispersion st (Some vis) cmd db mode sc ukp opt tag2 (snd r1)"
  define ov where "ov = (if mode = ''force'' then uis_force else uis_hessian)"
  obtain w1 vd where w1: "fst r1 = Inr w1" "dispersion_input_sets w1 = [vd]"
    and vd: "in_store (snd r1) vd"
      "user_incar_settings (snd r1) vd = user_incar_settings s vis ++ uis_common ++ ov"
    using get_wf_dispersion_derived [OF assms, of st cmd db sc ukp opt tag]
    unfolding r1_def ov_def by blast
  have vis1: "in_store (snd r1) vis"
    unfolding r1_def using assms(1) by (rule in_store_get_wf_dispersion)
  have base1: "user_incar_settings (snd r1) vis = user_incar_settings s vis"
    unfolding r1_def using assms(1) by (rule uis_get_wf_dispersion)
  obtain w2 vd2 where w2: "fst r2 = Inr w2" "dispersion_input_sets w2 = [vd2]"
    and vd2: "user_incar_settings (snd r2) vd2
                = user_incar_settings (snd r1) vis ++ uis_common ++ ov"
    using get_wf_dispersion_derived [OF vis1 assms(2), of st cmd db sc ukp opt tag2]
    unfolding r2_def ov_def by blast
  have keep: "user_incar_settings (snd r2) vd = user_incar_settings (snd r1) vd"
    unfolding r2_def using vd(1) by (rule uis_get_wf_dispersion)
  define r3 where "r3 = get_wf_dispersion st (Some vd) cmd db mode sc ukp opt tag3 (snd r1)"
  obtain w3 vd3 where w3: "fst r3 = Inr w3" "dispersion_input_sets w3 = [vd3]"
    and vd3: "user_incar_settings (snd r3) vd3
                = user_incar_settings (snd r1) vd ++ uis_common ++ ov"
    using get_wf_dispersion_derived [OF vd(1) assms(2), of st cmd db sc ukp opt tag3]
    unfolding r3_def ov_def by blast
  have again: "dispersion_settings (snd r2) w2 = dispersion_settings (snd r1) w1"
    by (simp add: dispersion_settings_map w1 w2 vd vd2 base1)
  have kept: "dispersion_settings (snd r2) w1 = dispersion_settings (snd r1) w1"
    by (simp add: dispersion_settings_map w1 keep)
  have nested: "dispersion_settings (snd r3) w3 = dispersion_settings (snd r1) w1"
    by (simp add: dispersion_settings_map w1 w3 vd vd3 map_add_twice)
  show ?thesis
    unfolding Let_def r1_def [symmetric] r2_def [symmetric]
    using w1 w2(1) again kept w3(1) [unfolded r3_def] nested [unfolded r3_def]
    by blast
qed

theorem derivation_idempotent_witness:
  "in_store store0 vis0 \<and>
   (let r1 = get_wf_dispersion Si (Some vis0) ''vasp'' None ''force'' supercell3 None True
               ''t1'' store0;
        r2 = get_wf_dispersion Si (Some vis0) ''vasp'' None ''force'' supercell3 None True
               ''t2'' (snd r1)
    in \<exists>w1 w2 vd.
         fst r1 = Inr w1 \<and> fst r2 = Inr w2 \<and>
         dispersion_settings (snd r2) w2 = dispersion_settings (snd r1) w1 \<and>
         dispersion_settings (snd r2) w1 = dispersion_settings (snd r1) w1 \<and>
         dispersion_input_sets w1 = [vd] \<and>
         (let r3 = get_wf_dispersion Si (Some vd) ''vasp'' None ''force'' supercell3 None True
                     ''t3'' (snd r1)
          in \<exists>w3. fst r3 = Inr w3 \<and>
               dispersion_settings (snd r3) w3 = dispersion_settings (snd r1) w1))"
proof -
  have h: "in_store store0 vis0"
    by (simp add: in_store_def store0_def vis0_def)
  have m: "''force'' = ''force'' \<or> ''force'' = ''hessian''"
    by simp
  show ?thesis
    by (rule conjI [OF h derivation_idempotent [OF h m]])
qed


lemma acyclic_wf_edges:
  assumes "\<forall>fw \<in> set (wf_fws w). \<forall>p \<in> set (fw_parents fw). p < fw_id fw"
  shows "acyclic (wf_edges w)"
proof -
  have "wf_edges w \<subseteq> less_than"
    using assms by (auto simp add: wf_edges_def)
  then show ?thesis
    by (rule acyclic_subset [OF wf_acyclic [OF wf_less_than]])
qed

lemma get_wf_dispersion_order:
  assumes "fst (get_wf_dispersion st vis cmd db mode sc ukp opt tag s) = Inr w"
  shows "parents_earlier [] (wf_fws w) \<and> sorted_wrt (<) (map fw_id (wf_fws w)) \<and>
         (\<forall>fw \<in> set (wf_fws w). \<forall>p \<in> set (fw_parents fw). p < fw_id fw)"
  using assms
  by (cases opt) (auto simp add: fst_get_wf_dispersion Let_def split: if_splits)

lemma get_wf_thermal_conductivity_order:
  assumes "fst (get_wf_thermal_conductivity st vis mode cmd tcmd db sc cutoff ukp opt tag s)
             = Inr w"
  shows "parents_earlier [] (wf_fws w) \<and> sorted_wrt (<) (map fw_id (wf_fws w)) \<and>
         (\<forall>fw \<in> set (wf_fws w). \<forall>p \<in> set (fw_parents fw). p < fw_id fw)"
  using assms
  by (cases opt) (auto simp add: fst_get_wf_thermal_conductivity Let_def split: if_splits)

text \<open>
  Claim C9. In a workflow returned by either assembler, every parent of a unit is a
  unit that stands earlier in the list of units; the units are listed in the order of
  their construction (their numbers increase along the list) and every parent has a
  smaller number than its child; so the dependency edges have no cycle.
\<close>

theorem workflow_acyclic:
  assumes "fst (get_wf_dispersion st vis cmd db mode sc ukp opt tag s) = Inr w \<or>
           fst (get_wf_thermal_conductivity st' vis' mode' cmd' tcmd db' sc' cutoff ukp' opt'
                  tag' s') = Inr w"
  shows "parents_earlier [] (wf_fws w) \<and> sorted_wrt (<) (map fw_id (wf_fws w)) \<and>
         (\<forall>fw \<in> set (wf_fws w). \<forall>p \<in> set (fw_parents fw). p < fw_id fw) \<and>
         acyclic (wf_edges w)"
proof -
  have order: "parents_earlier [] (wf_fws w) \<and> sorted_wrt (<) (map fw_id (wf_fws w)) \<and>
         (\<forall>fw \<in> set (wf_fws w). \<forall>p \<in> set (fw_parents fw). p < fw_id fw)"
    using assms
  proof
    assume "fst (get_wf_dispersion st vis cmd db mode sc ukp opt tag s) = Inr w"
    then show ?thesis by (rule get_wf_dispersion_order)
  next
    assume "fst (get_wf_thermal_conductivity st' vis' mode' cmd' tcmd db' sc' cutoff ukp' opt'
                   tag' s') = Inr w"
    then show ?thesis by (rule get_wf_thermal_conductivity_order)
  qed
  then have "acyclic (wf_edges w)"
    by (simp add: acyclic_wf_edges)
  with order show ?thesis by simp
qed

theorem workflow_acyclic_witness:
  "\<exists>w. fst (get_wf_thermal_conductivity Si (Some vis0) ''force'' ''vasp''
               ''thirdorder_vasp.py'' None supercell3 (IntV (- 4)) None True ''t'' store0)
          = Inr w \<and>
        map fw_parents (wf_fws w) = [[], [0], [1], [0], [2, 3]] \<and>
        parents_earlier [] (wf_fws w) \<and> sorted_wrt (<) (map fw_id (wf_fws w)) \<and>
        (\<forall>fw \<in> set (wf_fws w). \<forall>p \<in> set (fw_parents fw). p < fw_id fw) \<and>
        acyclic (wf_edges w)"
proof -
  obtain w where w:
    "fst (get_wf_thermal_conductivity Si (Some vis0) ''force'' ''vasp''
            ''thirdorder_vasp.py'' None supercell3 (IntV (- 4)) None True ''t'' store0) = Inr w"
    and ps: "map fw_parents (wf_fws w) = [[], [0], [1], [0], [2, 3]]"
    by (simp add: fst_get_wf_thermal_conductivity store0_def Let_def)
  have "fst (get_wf_dispersion Si (Some vis0) ''vasp'' None ''force'' supercell3 None True
               ''t'' store0) = Inr w \<or>
        fst (get_wf_thermal_conductivity Si (Some vis0) ''force'' ''vasp''
               ''thirdorder_vasp.py'' None supercell3 (IntV (- 4)) None True ''t'' store0)
          = Inr w"
    using w by simp
  from workflow_acyclic [OF this] w ps show ?thesis
    by (intro exI [of _ w]) simp
qed


end
